theory Spec2Isabelle
  imports Complex_Main "HOL-Library.Multiset" "HOL-Library.Sublist"
begin

section \<open>NBA player comparison: the load step and the similarity query\<close>

text \<open>
  The development embeds the two computations of \<^verbatim>\<open>streamlit_app.py\<close>:
  \<^verbatim>\<open>load_and_process_data\<close> (from the data frame that \<^verbatim>\<open>read_csv\<close> returned onwards) and
  \<^verbatim>\<open>find_similar_players\<close>. The widgets, the charts and the reading of the file are not
  modelled.

  Conventions of the embedding:
  \<^item> a \<^verbatim>\<open>float64\<close> cell is a \<open>real option\<close>: \<open>None\<close> is \<^verbatim>\<open>NaN\<close> (a missing value), and
    arithmetic on the present values is exact real arithmetic (rounding is not modelled);
  \<^item> a cell of the \<^verbatim>\<open>player\<close> or \<^verbatim>\<open>pos\<close> column (dtype \<^verbatim>\<open>object\<close>) is a \<open>string option\<close>,
    \<open>None\<close> again being a missing value, which compares unequal to everything;
  \<^item> a data frame is the list of its rows in index order; a row holds its numeric cells
    in column order. Columns that are neither numeric nor \<^verbatim>\<open>player\<close>/\<^verbatim>\<open>pos\<close> are dropped by
    \<^verbatim>\<open>select_dtypes\<close> before anything reads them and are left out.
\<close>

subsection \<open>Data model\<close>

type_synonym cell = "real option"
type_synonym label = "string option"

record raw_row =
  player :: label
  pos :: label
  vals :: "cell list"

text \<open>A row of \<^verbatim>\<open>final_df\<close>: the identifying columns, the normalized cells and
  the column \<^verbatim>\<open>'Career Score'\<close>.\<close>

record final_row = raw_row +
  career_score :: real

text \<open>A row of the frame that \<^verbatim>\<open>find_similar_players\<close> returns: a row of \<^verbatim>\<open>final_df\<close>
  with the added column \<^verbatim>\<open>'score_difference'\<close>.\<close>

record sim_row = final_row +
  score_difference :: real

text \<open>\<^verbatim>\<open>nba_data\<close> as \<^verbatim>\<open>read_csv\<close> returned it: whether the columns \<^verbatim>\<open>player\<close> and \<^verbatim>\<open>pos\<close>
  exist, the names of the numeric columns, and the rows. The \<open>player\<close> (\<open>pos\<close>) field of
  a row is read only when the column exists. A frame is rectangular: every row holds one
  cell for each numeric column.\<close>

record raw_table =
  has_player :: bool
  has_pos :: bool
  num_columns :: "string list"
  rows :: "raw_row list"


subsection \<open>The load step\<close>

text \<open>The non-missing values of a column, in order.\<close>

fun present :: "cell list \<Rightarrow> real list" where
  "present [] = []"
| "present (None # xs) = present xs"
| "present (Some x # xs) = x # present xs"

text \<open>\<^verbatim>\<open>stats.mean()\<close>, one column at a time: the mean of the non-missing values, and
  \<^verbatim>\<open>NaN\<close> for a column that has none.\<close>

definition nanmean :: "cell list \<Rightarrow> cell" where
  "nanmean xs =
     (if present xs = [] then None
      else Some (sum_list (present xs) / real (length (present xs))))"

text \<open>\<^verbatim>\<open>stats.fillna(stats.mean())\<close>, one column at a time: a missing cell takes the fill
  value of its column; where the fill value is itself \<^verbatim>\<open>NaN\<close> the cell stays missing.\<close>

definition fillna :: "cell list \<Rightarrow> cell \<Rightarrow> cell list" where
  "fillna xs m = map (\<lambda>x. case x of None \<Rightarrow> m | Some v \<Rightarrow> Some v) xs"

text \<open>\<^verbatim>\<open>StandardScaler.fit\<close> on one column: \<^verbatim>\<open>mean_\<close> and \<^verbatim>\<open>scale_\<close>. Missing values are
  disregarded; the variance is the population variance; a scale of zero (a constant
  column) is replaced by 1. A column without any value has \<^verbatim>\<open>NaN\<close> statistics (\<open>None\<close>).\<close>

definition fit :: "cell list \<Rightarrow> (real \<times> real) option" where
  "fit xs =
     (case nanmean xs of
        None \<Rightarrow> None
      | Some mu \<Rightarrow>
          (let var = sum_list (map (\<lambda>x. (x - mu)\<^sup>2) (present xs)) / real (length (present xs))
           in Some (mu, if var = 0 then 1 else sqrt var)))"

text \<open>\<^verbatim>\<open>StandardScaler.transform\<close> on one cell: \<open>(x - mean_) / scale_\<close>; a missing cell stays
  missing, and so does every cell under \<^verbatim>\<open>NaN\<close> statistics.\<close>

definition transform :: "(real \<times> real) option \<Rightarrow> cell \<Rightarrow> cell" where
  "transform st x =
     (case st of
        None \<Rightarrow> None
      | Some (mu, s) \<Rightarrow> (case x of None \<Rightarrow> None | Some v \<Rightarrow> Some ((v - mu) / s)))"


text \<open>Column \<open>j\<close> of the numeric part of a frame.\<close>

definition column :: "raw_row list \<Rightarrow> nat \<Rightarrow> cell list" where
  "column rs j = map (\<lambda>r. vals r ! j) rs"

text \<open>Lines 30 and 31: a frame without a \<^verbatim>\<open>pos\<close> column gets one, filled with
  \<^verbatim>\<open>'Unknown'\<close>.\<close>

definition with_pos :: "raw_table \<Rightarrow> raw_row list" where
  "with_pos nba_data =
     (if has_pos nba_data then rows nba_data
      else map (\<lambda>r. r\<lparr>pos := Some ''Unknown''\<rparr>) (rows nba_data))"

text \<open>Lines 37 to 40: the numeric columns, with the missing values filled in (the value
  of \<^verbatim>\<open>stats\<close> when the scaler receives it).\<close>

definition imputed_stats :: "raw_table \<Rightarrow> cell list list" where
  "imputed_stats nba_data =
     (let stats = map (column (with_pos nba_data)) [0..<length (num_columns nba_data)]
      in map (\<lambda>c. fillna c (nanmean c)) stats)"

text \<open>\<^verbatim>\<open>final_df[numerical_columns].sum(axis=1)\<close>: the sum along a row, which skips missing
  values (\<^verbatim>\<open>skipna\<close>), so that a row of missing values only sums to 0.\<close>

definition row_sum :: "cell list \<Rightarrow> real" where
  "row_sum xs = sum_list (present xs)"





text \<open>The load step read row by row, for the proofs: the normalized value of one cell of
  a column \<open>c\<close>, and the output row of one input row. Lemma \<open>load_rows\<close> shows that the
  column-wise computation above produces exactly these rows.\<close>

definition norm_cell :: "cell list \<Rightarrow> cell \<Rightarrow> cell" where
  "norm_cell c x =
     transform (fit (fillna c (nanmean c))) (case x of None \<Rightarrow> nanmean c | Some v \<Rightarrow> Some v)"

definition final_of :: "raw_row list \<Rightarrow> nat \<Rightarrow> raw_row \<Rightarrow> final_row" where
  "final_of rs n r =
     (let normalized = map (\<lambda>j. norm_cell (column rs j) (vals r ! j)) [0..<n]
      in \<lparr>player = player r, pos = pos r, vals = normalized, career_score = row_sum normalized\<rparr>)"

subsection \<open>The similarity query\<close>

text \<open>\<^verbatim>\<open>other_players['pos'] == target_position\<close>: element-wise equality on an object
  column; a missing value on either side compares unequal.\<close>

definition pos_eq :: "label \<Rightarrow> label \<Rightarrow> bool" where
  "pos_eq a b = (case a of None \<Rightarrow> False | Some s \<Rightarrow> b = Some s)"

definition add_score_difference :: "real \<Rightarrow> final_row \<Rightarrow> sim_row" where
  "add_score_difference target_score r =
     \<lparr>player = player r, pos = pos r, vals = vals r, career_score = career_score r,
      score_difference = \<bar>career_score r - target_score\<bar>\<rparr>"

text \<open>Lines 91 to 100 of the source, for the first row \<open>t0\<close> of \<^verbatim>\<open>target_data\<close>
  (\<^verbatim>\<open>.iloc[0]\<close>): the rows of other players, the optional position filter, and the new
  column.\<close>

definition other_players :: "final_row list \<Rightarrow> string \<Rightarrow> bool \<Rightarrow> final_row \<Rightarrow> sim_row list" where
  "other_players final_df target_player same_position_only t0 =
     (let others = filter (\<lambda>r. player r \<noteq> Some target_player) final_df;
          others = (if same_position_only
                    then filter (\<lambda>r. pos_eq (pos r) (pos t0)) others
                    else others)
      in map (add_score_difference (career_score t0)) others)"

text \<open>\<^verbatim>\<open>DataFrame.nsmallest(n, 'score_difference')\<close> with the default \<^verbatim>\<open>keep='first'\<close>: the
  first \<open>n\<close> rows in ascending order of the column, rows with equal values in their order
  of occurrence; no row for \<open>n \<le> 0\<close>. The column has no missing value here, since
  \<^verbatim>\<open>'Career Score'\<close> has none.\<close>

definition nsmallest :: "int \<Rightarrow> sim_row list \<Rightarrow> sim_row list" where
  "nsmallest n df = (if n \<le> 0 then [] else take (nat n) (sort_key score_difference df))"

definition find_similar_players :: "final_row list \<Rightarrow> string \<Rightarrow> int \<Rightarrow> bool \<Rightarrow> sim_row list" where
  "find_similar_players final_df target_player num_comparisons same_position_only =
     (let target_data = filter (\<lambda>r. player r = Some target_player) final_df
      in if target_data = [] then []
         else nsmallest num_comparisons
                (other_players final_df target_player same_position_only (hd target_data)))"

text \<open>The table of the specification's example: A (10, G), B (9, G), C (7, F), D (15, F).\<close>

definition example_df :: "final_row list" where
  "example_df =
     [\<lparr>player = Some ''A'', pos = Some ''G'', vals = [], career_score = 10\<rparr>,
      \<lparr>player = Some ''B'', pos = Some ''G'', vals = [], career_score = 9\<rparr>,
      \<lparr>player = Some ''C'', pos = Some ''F'', vals = [], career_score = 7\<rparr>,
      \<lparr>player = Some ''D'', pos = Some ''F'', vals = [], career_score = 15\<rparr>]"

text \<open>A table with equal score differences (B and C are both 1 away from A, D is 0
  away, E is 10 away), and a table in which the name A occurs on two rows.\<close>

definition ties_df :: "final_row list" where
  "ties_df =
     [\<lparr>player = Some ''A'', pos = Some ''G'', vals = [], career_score = 10\<rparr>,
      \<lparr>player = Some ''B'', pos = Some ''G'', vals = [], career_score = 11\<rparr>,
      \<lparr>player = Some ''C'', pos = Some ''F'', vals = [], career_score = 9\<rparr>,
      \<lparr>player = Some ''D'', pos = Some ''G'', vals = [], career_score = 10\<rparr>,
      \<lparr>player = Some ''E'', pos = Some ''F'', vals = [], career_score = 20\<rparr>]"

definition dup_df :: "final_row list" where
  "dup_df =
     [\<lparr>player = Some ''A'', pos = Some ''G'', vals = [], career_score = 10\<rparr>,
      \<lparr>player = Some ''B'', pos = Some ''G'', vals = [], career_score = 9\<rparr>,
      \<lparr>player = Some ''A'', pos = Some ''F'', vals = [], career_score = 30\<rparr>,
      \<lparr>player = Some ''C'', pos = Some ''F'', vals = [], career_score = 29\<rparr>,
      \<lparr>player = Some ''D'', pos = Some ''G'', vals = [], career_score = 12\<rparr>]"

text \<open>A table in which no other player has A's position.\<close>

definition lone_df :: "final_row list" where
  "lone_df =
     [\<lparr>player = Some ''A'', pos = Some ''C'', vals = [], career_score = 10\<rparr>,
      \<lparr>player = Some ''B'', pos = Some ''G'', vals = [], career_score = 9\<rparr>,
      \<lparr>player = Some ''E'', pos = None, vals = [], career_score = 10\<rparr>]"

section \<open>Properties of the similarity query\<close>

lemma set_nsmallest: "set (nsmallest n df) \<subseteq> set df"
proof (cases "n \<le> 0")
  case True
  then show ?thesis by (simp add: nsmallest_def)
next
  case False
  have "set (take (nat n) (sort_key score_difference df)) \<subseteq> set (sort_key score_difference df)"
    by (rule set_take_subset)
  with False show ?thesis by (simp add: nsmallest_def)
qed

lemma player_add_score_difference [simp]:
  "player (add_score_difference s r) = player r"
  by (simp add: add_score_difference_def)

lemma other_players_player:
  "x \<in> set (other_players final_df target same t0) \<Longrightarrow> player x \<noteq> Some target"
  by (auto simp: other_players_def Let_def split: if_splits)

lemma find_similar_players_subset:
  "set (find_similar_players final_df target k same)
     \<subseteq> set (other_players final_df target same (hd (filter (\<lambda>r. player r = Some target) final_df)))"
  using set_nsmallest by (simp add: find_similar_players_def Let_def)

subsection \<open>The first matching row\<close>

lemma first_target_row:
  "find P df = Some t0 \<Longrightarrow> filter P df \<noteq> [] \<and> hd (filter P df) = t0"
  by (induction df) (auto split: if_splits)

lemma find_similar_players_present:
  assumes "find (\<lambda>r. player r = Some target) final_df = Some t0"
  shows "find_similar_players final_df target k same
           = nsmallest k (other_players final_df target same t0)"
  using first_target_row [OF assms] by (simp add: find_similar_players_def Let_def)

lemma find_similar_players_absent:
  assumes "\<forall>r \<in> set final_df. player r \<noteq> Some target"
  shows "find_similar_players final_df target k same = []"
proof -
  from assms have "filter (\<lambda>r. player r = Some target) final_df = []"
    by (simp add: filter_empty_conv)
  then show ?thesis by (simp add: find_similar_players_def)
qed

lemma other_players_filter:
  "other_players final_df target same t0
     = map (add_score_difference (career_score t0))
         (filter (\<lambda>r. player r \<noteq> Some target \<and> (same \<longrightarrow> pos_eq (pos r) (pos t0))) final_df)"
  by (cases same) (simp_all add: other_players_def Let_def conj_commute)

lemma truncate_add_score_difference:
  "final_row.truncate (add_score_difference s r) = r"
  by (simp add: add_score_difference_def final_row.truncate_def)

lemma other_players_rows:
  "map final_row.truncate (other_players final_df target same t0)
     = filter (\<lambda>r. player r \<noteq> Some target \<and> (same \<longrightarrow> pos_eq (pos r) (pos t0))) final_df"
  by (simp add: other_players_filter o_def truncate_add_score_difference)

subsection \<open>Selection of the k nearest rows\<close>

lemma sorted_nsmallest: "sorted (map score_difference (nsmallest n df))"
proof (cases "n \<le> 0")
  case True
  then show ?thesis by (simp add: nsmallest_def)
next
  case False
  have "sorted (take (nat n) (map score_difference (sort_key score_difference df)))"
    by (rule sorted_wrt_take) (rule sorted_sort_key)
  with False show ?thesis by (simp add: nsmallest_def take_map)
qed

lemma nsmallest_stable:
  "prefix (filter (\<lambda>x. score_difference x = d) (nsmallest n df))
          (filter (\<lambda>x. score_difference x = d) df)"
proof (cases "n \<le> 0")
  case True
  then show ?thesis by (simp add: nsmallest_def)
next
  case False
  have "prefix (filter (\<lambda>x. score_difference x = d) (take (nat n) (sort_key score_difference df)))
          (filter (\<lambda>x. score_difference x = d) (sort_key score_difference df))"
    by (intro filter_mono_prefix take_is_prefix)
  with False show ?thesis by (simp add: nsmallest_def sort_key_stable)
qed

lemma length_nsmallest: "0 < n \<Longrightarrow> length (nsmallest n df) = min (nat n) (length df)"
  by (simp add: nsmallest_def)

lemma mset_take_subset: "mset (take n xs) \<subseteq># mset xs"
proof -
  have "mset xs = mset (take n xs) + mset (drop n xs)"
    by (metis append_take_drop_id mset_append)
  then show ?thesis by simp
qed

lemma mset_nsmallest_subset: "mset (nsmallest n df) \<subseteq># mset df"
proof (cases "n \<le> 0")
  case True
  then show ?thesis by (simp add: nsmallest_def)
next
  case False
  have "mset (take (nat n) (sort_key score_difference df)) \<subseteq># mset (sort_key score_difference df)"
    by (rule mset_take_subset)
  with False show ?thesis by (simp add: nsmallest_def)
qed

lemma mset_nsmallest_all:
  "0 < n \<Longrightarrow> length df \<le> nat n \<Longrightarrow> mset (nsmallest n df) = mset df"
  by (simp add: nsmallest_def)

lemma pos_eq_Some: "pos_eq a b \<Longrightarrow> \<exists>s. a = Some s \<and> b = Some s"
  by (cases a) (simp_all add: pos_eq_def)

lemma pos_add_score_difference [simp]:
  "pos (add_score_difference s r) = pos r"
  by (simp add: add_score_difference_def)

lemma score_difference_add [simp]:
  "score_difference (add_score_difference s r) = \<bar>career_score r - s\<bar>"
  by (simp add: add_score_difference_def)

lemma career_score_add [simp]:
  "career_score (add_score_difference s r) = career_score r"
  by (simp add: add_score_difference_def)

lemma other_players_pos:
  "x \<in> set (other_players final_df target True t0) \<Longrightarrow> pos_eq (pos x) (pos t0)"
  by (auto simp: other_players_filter)

lemma other_players_difference:
  "x \<in> set (other_players final_df target same t0)
     \<Longrightarrow> score_difference x = \<bar>career_score x - career_score t0\<bar>"
  by (auto simp: other_players_filter)

subsection \<open>The claims about the query\<close>

text \<open>C5: whatever the table, the target, \<open>k\<close> and the filter flag, no row of the result
  carries the target player's name: the target's own row is never returned.\<close>

theorem find_similar_never_returns_target:
  "\<forall>x \<in> set (find_similar_players final_df target k same). player x \<noteq> Some target"
  using find_similar_players_subset other_players_player by blast

theorem find_similar_never_returns_target_witness:
  "find_similar_players example_df ''A'' 5 False \<noteq> []
   \<and> list_all (\<lambda>x. player x \<noteq> Some ''A'') (find_similar_players example_df ''A'' 5 False)"
proof -
  have "find_similar_players example_df ''A'' 5 False \<noteq> []"
    by (simp add: find_similar_players_def other_players_def nsmallest_def example_df_def
        add_score_difference_def Let_def)
  moreover have "list_all (\<lambda>x. player x \<noteq> Some ''A'') (find_similar_players example_df ''A'' 5 False)"
    using find_similar_never_returns_target [of example_df "''A''" 5 False]
    by (simp add: list_all_iff)
  ultimately show ?thesis by simp
qed

text \<open>C1: when the target player is in the table, the rows returned are in
  non-decreasing order of \<open>score_difference\<close>, and the returned rows of any one score
  difference \<open>d\<close> are the first of the candidates of that difference, in the candidates'
  order, which is the row order of the table (third conjunct).\<close>

theorem find_similar_sorted_stable:
  assumes "find (\<lambda>r. player r = Some target) final_df = Some t0"
  shows "sorted (map score_difference (find_similar_players final_df target k same))
       \<and> (\<forall>d. prefix (filter (\<lambda>x. score_difference x = d)
                          (find_similar_players final_df target k same))
                       (filter (\<lambda>x. score_difference x = d)
                          (other_players final_df target same t0)))
       \<and> map final_row.truncate (other_players final_df target same t0)
           = filter (\<lambda>r. player r \<noteq> Some target \<and> (same \<longrightarrow> pos_eq (pos r) (pos t0))) final_df"
  unfolding find_similar_players_present [OF assms]
  using sorted_nsmallest nsmallest_stable other_players_rows by blast

theorem find_similar_sorted_stable_witness:
  "find (\<lambda>r. player r = Some ''A'') ties_df = Some (hd ties_df)
   \<and> find_similar_players ties_df ''A'' 3 False
       = map (add_score_difference 10) [ties_df ! 3, ties_df ! 1, ties_df ! 2]
   \<and> sorted (map score_difference (find_similar_players ties_df ''A'' 3 False))
   \<and> prefix (filter (\<lambda>x. score_difference x = 1) (find_similar_players ties_df ''A'' 3 False))
            (filter (\<lambda>x. score_difference x = 1) (other_players ties_df ''A'' False (hd ties_df)))"
proof -
  have h: "find (\<lambda>r. player r = Some ''A'') ties_df = Some (hd ties_df)"
    by (simp add: ties_df_def)
  have e: "find_similar_players ties_df ''A'' 3 False
       = map (add_score_difference 10) [ties_df ! 3, ties_df ! 1, ties_df ! 2]"
    by (simp add: find_similar_players_def other_players_def nsmallest_def ties_df_def
        add_score_difference_def Let_def)
  from find_similar_sorted_stable [OF h, of 3 False] h e show ?thesis by blast
qed

text \<open>C6: when the target player is in the table and the filter is on, every row returned
  has a position that is present and is the same string as the position of the target's
  (first) row.\<close>

theorem find_similar_same_position:
  assumes "find (\<lambda>r. player r = Some target) final_df = Some t0"
  shows "\<forall>x \<in> set (find_similar_players final_df target k True).
           \<exists>s. pos x = Some s \<and> pos t0 = Some s"
  unfolding find_similar_players_present [OF assms]
  using set_nsmallest other_players_pos pos_eq_Some by blast

theorem find_similar_same_position_witness:
  "find (\<lambda>r. player r = Some ''A'') example_df = Some (hd example_df)
   \<and> find_similar_players example_df ''A'' 2 True = [add_score_difference 10 (example_df ! 1)]
   \<and> list_all (\<lambda>x. \<exists>s. pos x = Some s \<and> pos (hd example_df) = Some s)
        (find_similar_players example_df ''A'' 2 True)"
proof -
  have h: "find (\<lambda>r. player r = Some ''A'') example_df = Some (hd example_df)"
    by (simp add: example_df_def)
  have e: "find_similar_players example_df ''A'' 2 True = [add_score_difference 10 (example_df ! 1)]"
    by (simp add: find_similar_players_def other_players_def nsmallest_def example_df_def
        add_score_difference_def pos_eq_def Let_def)
  from find_similar_same_position [OF h, of 2] h e show ?thesis
    by (simp add: list_all_iff)
qed

text \<open>C7: for a target in the table and a positive \<open>k\<close>, the number of rows returned is
  the smaller of \<open>k\<close> and the number of candidates left after exclusion and filtering; the
  rows returned are candidates (with multiplicity, so nothing is padded), and they are all
  of the candidates when there are at most \<open>k\<close>. The function has no failing branch.\<close>

theorem find_similar_count:
  assumes "find (\<lambda>r. player r = Some target) final_df = Some t0" and "0 < k"
  shows "length (find_similar_players final_df target k same)
           = min (nat k) (length (other_players final_df target same t0))
       \<and> mset (find_similar_players final_df target k same)
           \<subseteq># mset (other_players final_df target same t0)
       \<and> (length (other_players final_df target same t0) \<le> nat k
            \<longrightarrow> mset (find_similar_players final_df target k same)
                  = mset (other_players final_df target same t0))"
  unfolding find_similar_players_present [OF assms(1)]
  using assms(2) by (simp add: length_nsmallest mset_nsmallest_subset mset_nsmallest_all)

theorem find_similar_count_witness:
  "find (\<lambda>r. player r = Some ''A'') example_df = Some (hd example_df) \<and> (0::int) < 2
   \<and> length (other_players example_df ''A'' False (hd example_df)) = 3
   \<and> length (find_similar_players example_df ''A'' 2 False) = 2
   \<and> length (other_players example_df ''A'' True (hd example_df)) = 1
   \<and> length (find_similar_players example_df ''A'' 2 True) = 1
   \<and> mset (find_similar_players example_df ''A'' 2 True)
       = mset (other_players example_df ''A'' True (hd example_df))"
proof -
  have h: "find (\<lambda>r. player r = Some ''A'') example_df = Some (hd example_df)"
    by (simp add: example_df_def)
  have k: "(0::int) < 2" by simp
  have l3: "length (other_players example_df ''A'' False (hd example_df)) = 3"
    by (simp add: other_players_def example_df_def Let_def)
  have l1: "length (other_players example_df ''A'' True (hd example_df)) = 1"
    by (simp add: other_players_def example_df_def pos_eq_def Let_def)
  from find_similar_count [OF h k, of False] find_similar_count [OF h k, of True] h l3 l1
  show ?thesis by simp
qed

text \<open>C8: a target name that no row carries gives the empty result, and so does a position
  filter that no other player's row passes; the result is a list in both cases.\<close>

theorem find_similar_empty:
  "((\<forall>r \<in> set final_df. player r \<noteq> Some target)
      \<longrightarrow> find_similar_players final_df target k same = [])
   \<and> (find (\<lambda>r. player r = Some target) final_df = Some t0
        \<and> (\<forall>r \<in> set final_df. player r \<noteq> Some target \<longrightarrow> \<not> pos_eq (pos r) (pos t0))
      \<longrightarrow> find_similar_players final_df target k True = [])"
proof (intro conjI impI)
  assume "\<forall>r \<in> set final_df. player r \<noteq> Some target"
  then show "find_similar_players final_df target k same = []"
    by (rule find_similar_players_absent)
next
  assume a: "find (\<lambda>r. player r = Some target) final_df = Some t0
        \<and> (\<forall>r \<in> set final_df. player r \<noteq> Some target \<longrightarrow> \<not> pos_eq (pos r) (pos t0))"
  then have "other_players final_df target True t0 = []"
    by (auto simp: other_players_filter filter_empty_conv)
  with a show "find_similar_players final_df target k True = []"
    by (simp add: find_similar_players_present nsmallest_def)
qed

theorem find_similar_empty_witness:
  "list_all (\<lambda>r. player r \<noteq> Some ''Z'') example_df
   \<and> find_similar_players example_df ''Z'' 3 False = []
   \<and> find (\<lambda>r. player r = Some ''A'') lone_df = Some (hd lone_df)
   \<and> list_all (\<lambda>r. player r = Some ''A'' \<or> \<not> pos_eq (pos r) (pos (hd lone_df))) lone_df
   \<and> find_similar_players lone_df ''A'' 3 True = []
   \<and> find_similar_players lone_df ''A'' 3 False \<noteq> []"
proof -
  have a: "\<forall>r \<in> set example_df. player r \<noteq> Some ''Z''"
    by (simp add: example_df_def)
  have h: "find (\<lambda>r. player r = Some ''A'') lone_df = Some (hd lone_df)"
    by (simp add: lone_df_def)
  have b: "\<forall>r \<in> set lone_df. player r \<noteq> Some ''A'' \<longrightarrow> \<not> pos_eq (pos r) (pos (hd lone_df))"
    by (simp add: lone_df_def pos_eq_def)
  have c: "find_similar_players lone_df ''A'' 3 False \<noteq> []"
    by (simp add: find_similar_players_def other_players_def nsmallest_def lone_df_def
        add_score_difference_def Let_def)
  from find_similar_empty [of example_df "''Z''" 3 False]
       find_similar_empty [where final_df = lone_df and target = "''A''" and ?t0.0 = "hd lone_df"
         and k = 3]
       a h b c
  show ?thesis by (auto simp: list_all_iff)
qed

text \<open>C10: with \<open>t0\<close> the first row in table order that carries the target's name, the
  result is the selection among all rows of another name (every row of the target's name is
  left out, not only \<open>t0\<close>), filtered by the position of \<open>t0\<close> and measured against the
  career score of \<open>t0\<close>.\<close>

theorem find_similar_duplicate_names:
  assumes "find (\<lambda>r. player r = Some target) final_df = Some t0"
  shows "find_similar_players final_df target k same
           = nsmallest k (map (add_score_difference (career_score t0))
               (filter (\<lambda>r. player r \<noteq> Some target \<and> (same \<longrightarrow> pos_eq (pos r) (pos t0)))
                  final_df))
       \<and> (\<forall>x \<in> set (find_similar_players final_df target k same).
            player x \<noteq> Some target
            \<and> score_difference x = \<bar>career_score x - career_score t0\<bar>
            \<and> (same \<longrightarrow> pos_eq (pos x) (pos t0)))"
proof -
  have e: "find_similar_players final_df target k same
             = nsmallest k (other_players final_df target same t0)"
    by (rule find_similar_players_present [OF assms])
  have "\<forall>x \<in> set (other_players final_df target same t0).
            player x \<noteq> Some target
            \<and> score_difference x = \<bar>career_score x - career_score t0\<bar>
            \<and> (same \<longrightarrow> pos_eq (pos x) (pos t0))"
    by (auto simp: other_players_filter)
  with set_nsmallest [of k "other_players final_df target same t0"] e
  show ?thesis by (auto simp: other_players_filter)
qed

theorem find_similar_duplicate_names_witness:
  "find (\<lambda>r. player r = Some ''A'') dup_df = Some (dup_df ! 0)
   \<and> length (filter (\<lambda>r. player r = Some ''A'') dup_df) = 2
   \<and> find_similar_players dup_df ''A'' 5 False
       = map (add_score_difference 10) [dup_df ! 1, dup_df ! 4, dup_df ! 3]
   \<and> find_similar_players dup_df ''A'' 5 True
       = map (add_score_difference 10) [dup_df ! 1, dup_df ! 4]
   \<and> list_all (\<lambda>x. player x \<noteq> Some ''A'' \<and> score_difference x = \<bar>career_score x - 10\<bar>)
       (find_similar_players dup_df ''A'' 5 False)"
proof -
  have h: "find (\<lambda>r. player r = Some ''A'') dup_df = Some (dup_df ! 0)"
    by (simp add: dup_df_def)
  have c: "career_score (dup_df ! 0) = 10" "pos (dup_df ! 0) = Some ''G''"
    by (simp_all add: dup_df_def)
  have n: "length (filter (\<lambda>r. player r = Some ''A'') dup_df) = 2"
    by (simp add: dup_df_def)
  have f: "nsmallest 5 (map (add_score_difference 10)
               (filter (\<lambda>r. player r \<noteq> Some ''A'') dup_df))
           = map (add_score_difference 10) [dup_df ! 1, dup_df ! 4, dup_df ! 3]"
    by (simp add: nsmallest_def dup_df_def add_score_difference_def)
  have t: "nsmallest 5 (map (add_score_difference 10)
               (filter (\<lambda>r. player r \<noteq> Some ''A'' \<and> pos_eq (pos r) (Some ''G'')) dup_df))
           = map (add_score_difference 10) [dup_df ! 1, dup_df ! 4]"
    by (simp add: nsmallest_def dup_df_def add_score_difference_def pos_eq_def)
  from find_similar_duplicate_names [OF h, of 5 False]
       find_similar_duplicate_names [OF h, of 5 True] h n f t c
  show ?thesis by (simp add: list_all_iff)
qed

section \<open>Properties of the load step\<close>

subsection \<open>The rows of the result\<close>

lemma length_with_pos [simp]: "length (with_pos t) = length (rows t)"
  by (simp add: with_pos_def)

lemma with_pos_Nil [simp]: "with_pos t = [] \<longleftrightarrow> rows t = []"
  by (simp add: with_pos_def)

lemma imputed_stats_Nil [simp]: "imputed_stats t = [] \<longleftrightarrow> num_columns t = []"
  by (simp add: imputed_stats_def Let_def)

lemma length_fillna [simp]: "length (fillna c m) = length c"
  by (simp add: fillna_def)

lemma length_column [simp]: "length (column rs j) = length rs"
  by (simp add: column_def)







subsection \<open>Statistics are functions of the multiset of a column\<close>



















subsection \<open>Identifying columns and the score of a row\<close>

lemma column_with_pos [simp]: "column (with_pos t) j = column (rows t) j"
  by (simp add: with_pos_def column_def)

lemma map_player_with_pos [simp]: "map player (with_pos t) = map player (rows t)"
  by (simp add: with_pos_def)


lemma player_final_of [simp]: "player (final_of rs n r) = player r"
  by (simp add: final_of_def Let_def)

lemma pos_final_of [simp]: "pos (final_of rs n r) = pos r"
  by (simp add: final_of_def Let_def)



subsection \<open>Constant columns\<close>



lemma present_replicate [simp]: "present (replicate n (Some v)) = replicate n v"
  by (induction n) simp_all





subsection \<open>Imputation and columns without a value\<close>





lemma present_fillna_None [simp]: "present (fillna c None) = present c"
  by (induction c rule: present.induct) (simp_all add: fillna_def)






subsection \<open>The claims about the load step\<close>











end
